theory Spec2Isabelle
  imports Main
begin

section \<open>JavaScript values\<close>

text \<open>
  The component reads a parsed JSON body that TypeScript types as \<open>any\<close>, so the model
  keeps the run-time values: \<open>JUndefined\<close> is what reading an absent property yields.
  Numbers are restricted to integers (record identifiers, flags); strings are held as
  their UTF-8 bytes. An object is the list of its properties, each name once, read with
  \<open>map_of\<close>.
\<close>

datatype jsval =
    JUndefined
  | JNull
  | JBool bool
  | JNum int
  | JStr string
  | JArr "jsval list"
  | JObj "(string \<times> jsval) list"

datatype thrown = FetchFailed | JsonSyntaxError | PropertyOfNullish

text \<open>JavaScript truthiness: the condition of \<open>if\<close>, \<open>&&\<close> and \<open>||\<close>.\<close>

fun truthy :: "jsval \<Rightarrow> bool" where
  "truthy JUndefined = False"
| "truthy JNull = False"
| "truthy (JBool b) = b"
| "truthy (JNum n) = (n \<noteq> 0)"
| "truthy (JStr s) = (s \<noteq> [])"
| "truthy (JArr xs) = True"
| "truthy (JObj kvs) = True"

text \<open>\<open>a || b\<close>\<close>

definition js_or :: "jsval \<Rightarrow> jsval \<Rightarrow> jsval" where
  "js_or a b = (if truthy a then a else b)"

text \<open>
  \<open>v.k\<close> for the property names this component reads (\<open>success\<close>, \<open>client\<close>,
  \<open>message\<close> and the ten field names): reading from \<open>null\<close> or \<open>undefined\<close> throws a
  TypeError, an object yields the property or \<open>undefined\<close>, and primitives and arrays
  have none of these properties.
\<close>

fun get_prop :: "jsval \<Rightarrow> string \<Rightarrow> thrown + jsval" where
  "get_prop JUndefined k = Inl PropertyOfNullish"
| "get_prop JNull k = Inl PropertyOfNullish"
| "get_prop (JObj kvs) k = Inr (case map_of kvs k of None \<Rightarrow> JUndefined | Some v \<Rightarrow> v)"
| "get_prop v k = Inr JUndefined"

text \<open>
  Decimal rendering of an integer, as a template literal renders a number that
  JavaScript prints in plain decimal notation (magnitude below \<open>10^21\<close>).
\<close>

fun digits :: "nat \<Rightarrow> string" where
  "digits n = (if n < 10 then [char_of (48 + n)]
               else digits (n div 10) @ [char_of (48 + n mod 10)])"

definition number_to_string :: "int \<Rightarrow> string" where
  "number_to_string i = (if i < 0 then CHR ''-'' # digits (nat (- i)) else digits (nat i))"

section \<open>Component data\<close>

text \<open>\<open>ClientFormProps\<close>: \<open>clientId?: number\<close>, \<open>isEditMode = false\<close> by default.\<close>

record ClientFormProps =
  clientId :: "int option"
  isEditMode :: bool

text \<open>
  \<open>ClientFormData\<close>. Every field is declared \<open>string\<close>, but \<open>fetchClient\<close> stores
  properties of an \<open>any\<close> value in them, so the fields hold run-time values.
\<close>

record ClientFormData =
  full_name :: jsval
  email :: jsval
  phone :: jsval
  address :: jsval
  passport_number :: jsval
  passport_issue_date :: jsval
  passport_expiry_date :: jsval
  driver_license_number :: jsval
  driver_license_expiry :: jsval
  notes' :: jsval

definition blank_form :: ClientFormData where
  "blank_form = \<lparr> full_name = JStr [], email = JStr [], phone = JStr [], address = JStr [],
     passport_number = JStr [], passport_issue_date = JStr [], passport_expiry_date = JStr [],
     driver_license_number = JStr [], driver_license_expiry = JStr [], notes' = JStr [] \<rparr>"

text \<open>The five \<open>useState\<close> cells.\<close>

record form_state =
  formData :: ClientFormData
  loading :: bool
  submitting :: bool
  error :: jsval
  success :: jsval

definition initial_state :: "ClientFormProps \<Rightarrow> form_state" where
  "initial_state p = \<lparr> formData = blank_form, loading = isEditMode p, submitting = False,
     error = JStr [], success = JStr [] \<rparr>"

section \<open>Collaborators: network, timer, router, console\<close>

record request =
  url :: string
  http_method :: string
  headers :: "(string \<times> string) list"
  body :: "ClientFormData option"

text \<open>
  What \<open>fetch\<close> delivers: the promise rejects, or resolves to a response with an HTTP
  status whose \<open>json()\<close> either rejects (\<open>None\<close>) or yields the parsed body.
\<close>

record response =
  status :: nat
  body_json :: "jsval option"

datatype fetch_outcome = FetchRejected | FetchResolved response

datatype effect =
    PreventDefault
  | Fetch request
  | SetTimeout nat string
  | RouterPush string
  | ConsoleError string

text \<open>The canned messages of the source, as UTF-8 bytes.\<close>

definition msg_load_failed :: string where
  "msg_load_failed = map char_of [208, 157, 208, 181, 32, 209, 131, 208, 180, 208, 176, 208, 187,
     208, 190, 209, 129, 209, 140, 32, 208, 183, 208, 176, 208, 179, 209, 128, 209, 131, 208, 183,
     208, 184, 209, 130, 209, 140, 32, 208, 180, 208, 176, 208, 189, 208, 189, 209, 139, 208, 181,
     32, 208, 186, 208, 187, 208, 184, 208, 181, 208, 189, 209, 130, 208, 176 :: nat]"

definition msg_load_thrown :: string where
  "msg_load_thrown = map char_of [208, 158, 209, 136, 208, 184, 208, 177, 208, 186, 208, 176, 32,
     208, 191, 209, 128, 208, 184, 32, 208, 183, 208, 176, 208, 179, 209, 128, 209, 131, 208, 183,
     208, 186, 208, 181, 32, 208, 180, 208, 176, 208, 189, 208, 189, 209, 139, 209, 133 :: nat]"

definition msg_submit_ok :: string where
  "msg_submit_ok = map char_of [208, 158, 208, 191, 208, 181, 209, 128, 208, 176, 209, 134, 208,
     184, 209, 143, 32, 208, 178, 209, 139, 208, 191, 208, 190, 208, 187, 208, 189, 208, 181, 208,
     189, 208, 176, 32, 209, 131, 209, 129, 208, 191, 208, 181, 209, 136, 208, 189, 208, 190 :: nat]"

definition msg_submit_failed :: string where
  "msg_submit_failed = map char_of [208, 159, 209, 128, 208, 190, 208, 184, 208, 183, 208, 190,
     209, 136, 208, 187, 208, 176, 32, 208, 190, 209, 136, 208, 184, 208, 177, 208, 186, 208,
     176 :: nat]"

definition msg_submit_thrown :: string where
  "msg_submit_thrown = map char_of [208, 159, 209, 128, 208, 190, 208, 184, 208, 183, 208, 190,
     209, 136, 208, 187, 208, 176, 32, 208, 190, 209, 136, 208, 184, 208, 177, 208, 186, 208, 176,
     32, 208, 191, 209, 128, 208, 184, 32, 208, 190, 209, 130, 208, 191, 209, 128, 208, 176, 208,
     178, 208, 186, 208, 181, 32, 208, 180, 208, 176, 208, 189, 208, 189, 209, 139, 209, 133 :: nat]"

text \<open>\<open>await fetch(...)\<close> followed by \<open>await response.json()\<close> inside a \<open>try\<close>.\<close>

definition await_json :: "fetch_outcome \<Rightarrow> thrown + jsval" where
  "await_json out =
     (case out of
        FetchRejected \<Rightarrow> Inl FetchFailed
      | FetchResolved r \<Rightarrow>
          (case body_json r of None \<Rightarrow> Inl JsonSyntaxError | Some data \<Rightarrow> Inr data))"

text \<open>\<open>`${clientId}`\<close>: an absent identifier renders as \<open>undefined\<close>.\<close>

definition template_id :: "int option \<Rightarrow> string" where
  "template_id cid = (case cid of None \<Rightarrow> ''undefined'' | Some n \<Rightarrow> number_to_string n)"

section \<open>fetchClient\<close>

definition fetchClient_request :: "ClientFormProps \<Rightarrow> request" where
  "fetchClient_request p =
     \<lparr> url = ''/api/clients/'' @ template_id (clientId p), http_method = ''GET'',
       headers = [], body = None \<rparr>"

text \<open>\<open>data.client.k || ''\<close> for a truthy \<open>data.client\<close>.\<close>

definition prop_of :: "jsval \<Rightarrow> string \<Rightarrow> jsval" where
  "prop_of v k = (case get_prop v k of Inl e \<Rightarrow> JUndefined | Inr x \<Rightarrow> x)"

definition client_form :: "jsval \<Rightarrow> ClientFormData" where
  "client_form c =
     \<lparr> full_name = prop_of c ''full_name'',
       email = js_or (prop_of c ''email'') (JStr []),
       phone = prop_of c ''phone'',
       address = js_or (prop_of c ''address'') (JStr []),
       passport_number = prop_of c ''passport_number'',
       passport_issue_date = js_or (prop_of c ''passport_issue_date'') (JStr []),
       passport_expiry_date = js_or (prop_of c ''passport_expiry_date'') (JStr []),
       driver_license_number = js_or (prop_of c ''driver_license_number'') (JStr []),
       driver_license_expiry = js_or (prop_of c ''driver_license_expiry'') (JStr []),
       notes' = js_or (prop_of c ''notes'') (JStr []) \<rparr>"

text \<open>
  The body of the \<open>try\<close> block after the request was issued. Every throw (rejected fetch,
  rejected \<open>json()\<close>, \<open>data.success\<close> on \<open>null\<close>) happens before the first state update, so
  the block either throws or returns the updated state.
\<close>

definition fetchClient_try :: "form_state \<Rightarrow> fetch_outcome \<Rightarrow> thrown + form_state" where
  "fetchClient_try s out =
     (case await_json out of
        Inl e \<Rightarrow> Inl e
      | Inr data \<Rightarrow>
          (case get_prop data ''success'' of
             Inl e \<Rightarrow> Inl e
           | Inr ok \<Rightarrow>
               if truthy ok \<and> truthy (prop_of data ''client'')
               then Inr (s\<lparr>formData := client_form (prop_of data ''client'')\<rparr>)
               else Inr (s\<lparr>error := js_or (prop_of data ''message'') (JStr msg_load_failed)\<rparr>)))"

text \<open>The whole continuation: \<open>try\<close>, \<open>catch\<close>, \<open>finally\<close>.\<close>

definition fetchClient_resume :: "form_state \<Rightarrow> fetch_outcome \<Rightarrow> form_state \<times> effect list" where
  "fetchClient_resume s out =
     (let (s1, fx) =
        (case fetchClient_try s out of
           Inr s' \<Rightarrow> (s', [])
         | Inl e \<Rightarrow> (s\<lparr>error := JStr msg_load_thrown\<rparr>, [ConsoleError ''Fetch client error:'']))
      in (s1\<lparr>loading := False\<rparr>, fx))"

section \<open>handleChange\<close>

text \<open>
  \<open>setFormData(prev => ({...prev, [name]: value}))\<close>: the named field is replaced; a name
  that is none of the ten fields leaves all ten as they are.
\<close>

definition set_field :: "string \<Rightarrow> jsval \<Rightarrow> ClientFormData \<Rightarrow> ClientFormData" where
  "set_field name v f =
     (if name = ''full_name'' then f\<lparr>full_name := v\<rparr>
      else if name = ''email'' then f\<lparr>email := v\<rparr>
      else if name = ''phone'' then f\<lparr>phone := v\<rparr>
      else if name = ''address'' then f\<lparr>address := v\<rparr>
      else if name = ''passport_number'' then f\<lparr>passport_number := v\<rparr>
      else if name = ''passport_issue_date'' then f\<lparr>passport_issue_date := v\<rparr>
      else if name = ''passport_expiry_date'' then f\<lparr>passport_expiry_date := v\<rparr>
      else if name = ''driver_license_number'' then f\<lparr>driver_license_number := v\<rparr>
      else if name = ''driver_license_expiry'' then f\<lparr>driver_license_expiry := v\<rparr>
      else if name = ''notes'' then f\<lparr>notes' := v\<rparr>
      else f)"

definition handleChange :: "string \<Rightarrow> string \<Rightarrow> form_state \<Rightarrow> form_state" where
  "handleChange name v s = s\<lparr>formData := set_field name (JStr v) (formData s)\<rparr>"

section \<open>handleSubmit\<close>

definition submit_request :: "ClientFormProps \<Rightarrow> ClientFormData \<Rightarrow> request" where
  "submit_request p f =
     \<lparr> url = (if isEditMode p then ''/api/clients/'' @ template_id (clientId p)
              else ''/api/clients''),
       http_method = (if isEditMode p then ''PUT'' else ''POST''),
       headers = [(''Content-Type'', ''application/json'')],
       body = Some f \<rparr>"

text \<open>The synchronous part, up to the first \<open>await\<close>.\<close>

definition handleSubmit_start :: "ClientFormProps \<Rightarrow> form_state \<Rightarrow> form_state \<times> effect list" where
  "handleSubmit_start p s =
     (s\<lparr>error := JStr [], success := JStr [], submitting := True\<rparr>,
      [PreventDefault, Fetch (submit_request p (formData s))])"

text \<open>
  The rest of the \<open>try\<close> block. As in \<open>fetchClient\<close>, every throw precedes the first
  state update.
\<close>

definition handleSubmit_try ::
  "ClientFormProps \<Rightarrow> form_state \<Rightarrow> fetch_outcome \<Rightarrow> thrown + form_state \<times> effect list" where
  "handleSubmit_try p s out =
     (case await_json out of
        Inl e \<Rightarrow> Inl e
      | Inr data \<Rightarrow>
          (case get_prop data ''success'' of
             Inl e \<Rightarrow> Inl e
           | Inr ok \<Rightarrow>
               if truthy ok
               then
                 (let s1 = s\<lparr>success := js_or (prop_of data ''message'') (JStr msg_submit_ok)\<rparr>;
                      s2 = (if \<not> isEditMode p then s1\<lparr>formData := blank_form\<rparr> else s1)
                  in Inr (s2, [SetTimeout 2000 ''/clients'']))
               else
                 Inr (s\<lparr>error := js_or (prop_of data ''message'') (JStr msg_submit_failed)\<rparr>, [])))"

definition handleSubmit_resume ::
  "ClientFormProps \<Rightarrow> form_state \<Rightarrow> fetch_outcome \<Rightarrow> form_state \<times> effect list" where
  "handleSubmit_resume p s out =
     (let (s1, fx) =
        (case handleSubmit_try p s out of
           Inr r \<Rightarrow> r
         | Inl e \<Rightarrow> (s\<lparr>error := JStr msg_submit_thrown\<rparr>, [ConsoleError ''Submit error:'']))
      in (s1\<lparr>submitting := False\<rparr>, fx))"

text \<open>One whole submission: the synchronous part, then the continuation.\<close>

definition handleSubmit ::
  "ClientFormProps \<Rightarrow> form_state \<Rightarrow> fetch_outcome \<Rightarrow> form_state \<times> effect list" where
  "handleSubmit p s out =
     (let (s1, fx1) = handleSubmit_start p s;
          (s2, fx2) = handleSubmit_resume p s1 out
      in (s2, fx1 @ fx2))"

section \<open>Rendering\<close>

text \<open>
  The controls of the form in the order of the markup: name, \<open>type\<close>, the \<open>value\<close> bound
  to the control and whether it carries \<open>required\<close>.
\<close>

record input_el =
  el_name :: string
  el_type :: string
  el_value :: jsval
  el_required :: bool

definition form_inputs :: "ClientFormData \<Rightarrow> input_el list" where
  "form_inputs f =
     [ \<lparr> el_name = ''full_name'', el_type = ''text'', el_value = full_name f, el_required = True \<rparr>,
       \<lparr> el_name = ''phone'', el_type = ''tel'', el_value = phone f, el_required = True \<rparr>,
       \<lparr> el_name = ''email'', el_type = ''email'', el_value = email f, el_required = False \<rparr>,
       \<lparr> el_name = ''address'', el_type = ''text'', el_value = address f, el_required = False \<rparr>,
       \<lparr> el_name = ''passport_number'', el_type = ''text'', el_value = passport_number f,
         el_required = True \<rparr>,
       \<lparr> el_name = ''passport_issue_date'', el_type = ''date'',
         el_value = passport_issue_date f, el_required = False \<rparr>,
       \<lparr> el_name = ''passport_expiry_date'', el_type = ''date'',
         el_value = passport_expiry_date f, el_required = False \<rparr>,
       \<lparr> el_name = ''driver_license_number'', el_type = ''text'',
         el_value = driver_license_number f, el_required = False \<rparr>,
       \<lparr> el_name = ''driver_license_expiry'', el_type = ''date'',
         el_value = driver_license_expiry f, el_required = False \<rparr>,
       \<lparr> el_name = ''notes'', el_type = ''textarea'', el_value = notes' f, el_required = False \<rparr> ]"

text \<open>
  What the component returns: the loading indicator alone, or the page with the banners
  (shown when truthy), the controls and the submit button's \<open>disabled\<close> flag. A banner
  holds the cell's value as its child; a string child is the text on the page, and how
  React treats a child of another kind is not part of the model.
\<close>

datatype view =
    LoadingView
  | FormView (error_banner: "jsval option") (success_banner: "jsval option")
      (inputs: "input_el list") (submit_disabled: bool)

definition render :: "form_state \<Rightarrow> view" where
  "render s =
     (if loading s then LoadingView
      else FormView (if truthy (error s) then Some (error s) else None)
             (if truthy (success s) then Some (success s) else None)
             (form_inputs (formData s)) (submitting s))"

section \<open>The mounted component\<close>

text \<open>
  A mounted component with fixed props: the state cells, the requests in flight, the
  navigation timers not yet elapsed and everything done to the collaborators so far.
\<close>

record config =
  st :: form_state
  load_pending :: bool
  submit_pending :: bool
  timers :: nat
  trace :: "effect list"

text \<open>\<open>clientId\<close> as a condition: absent and \<open>0\<close> are falsy.\<close>

definition truthy_id :: "int option \<Rightarrow> bool" where
  "truthy_id cid = (case cid of None \<Rightarrow> False | Some n \<Rightarrow> n \<noteq> 0)"

text \<open>Mount: the initial state, then the effect \<open>if (isEditMode && clientId) fetchClient()\<close>.\<close>

definition mount :: "ClientFormProps \<Rightarrow> config" where
  "mount p =
     (if isEditMode p \<and> truthy_id (clientId p)
      then \<lparr> st = initial_state p, load_pending = True, submit_pending = False, timers = 0,
             trace = [Fetch (fetchClient_request p)] \<rparr>
      else \<lparr> st = initial_state p, load_pending = False, submit_pending = False, timers = 0,
             trace = [] \<rparr>)"

text \<open>
  Modelled from the spec: the browser-level required-field gate, which is the browser's
  part and not in the source. A control marked \<open>required\<close> whose value is the empty string
  blocks the submission, so that the \<open>submit\<close> event is never dispatched to \<open>onSubmit\<close>.
  Only a control bound to the empty string counts as empty here; the \<open>required\<close> marks
  themselves are those of the markup (\<open>form_inputs\<close>).
\<close>

definition value_missing :: "input_el \<Rightarrow> bool" where
  "value_missing el = (el_required el \<and> el_value el = JStr [])"

definition gate_blocks :: "input_el list \<Rightarrow> bool" where
  "gate_blocks els = list_ex value_missing els"

text \<open>The requests issued so far.\<close>

fun fetches :: "effect list \<Rightarrow> request list" where
  "fetches [] = []"
| "fetches (Fetch r # fx) = r # fetches fx"
| "fetches (e # fx) = fetches fx"

text \<open>The navigations scheduled by a list of effects, as (delay, target).\<close>

fun scheduled :: "effect list \<Rightarrow> (nat \<times> string) list" where
  "scheduled [] = []"
| "scheduled (SetTimeout d t # fx) = (d, t) # scheduled fx"
| "scheduled (e # fx) = scheduled fx"

text \<open>The immediate navigations among a list of effects.\<close>

fun pushes :: "effect list \<Rightarrow> string list" where
  "pushes [] = []"
| "pushes (RouterPush t # fx) = t # pushes fx"
| "pushes (e # fx) = pushes fx"

datatype event =
    LoadCompleted fetch_outcome
  | InputChanged string string
  | SubmitRequested
  | SubmitCompleted fetch_outcome
  | CancelClicked
  | TimerElapsed

text \<open>
  One event on the mounted component. An event that cannot occur in the configuration
  (a completion with nothing in flight, a user action on a form that is not rendered, a
  submission through the button disabled by \<open>submitting\<close> or through a blocked gate, a
  timer that was never set) leaves it as it is. The inputs stay editable while a
  submission is in flight, so its continuation runs on the state of that moment.
\<close>

definition step :: "ClientFormProps \<Rightarrow> config \<Rightarrow> event \<Rightarrow> config" where
  "step p c ev =
     (case ev of
        LoadCompleted out \<Rightarrow>
          if load_pending c
          then (let (s', fx) = fetchClient_resume (st c) out
                in c\<lparr>st := s', load_pending := False, trace := trace c @ fx\<rparr>)
          else c
      | InputChanged name v \<Rightarrow>
          (case render (st c) of
             LoadingView \<Rightarrow> c
           | FormView eb sb els dis \<Rightarrow> c\<lparr>st := handleChange name v (st c)\<rparr>)
      | SubmitRequested \<Rightarrow>
          (case render (st c) of
             LoadingView \<Rightarrow> c
           | FormView eb sb els dis \<Rightarrow>
               if dis \<or> gate_blocks els then c
               else (let (s', fx) = handleSubmit_start p (st c)
                     in c\<lparr>st := s', submit_pending := True, trace := trace c @ fx\<rparr>))
      | SubmitCompleted out \<Rightarrow>
          if submit_pending c
          then (let (s', fx) = handleSubmit_resume p (st c) out
                in c\<lparr>st := s', submit_pending := False,
                     timers := timers c + length (scheduled fx),
                     trace := trace c @ fx\<rparr>)
          else c
      | CancelClicked \<Rightarrow>
          (case render (st c) of
             LoadingView \<Rightarrow> c
           | FormView eb sb els dis \<Rightarrow> c\<lparr>trace := trace c @ [RouterPush ''/clients'']\<rparr>)
      | TimerElapsed \<Rightarrow>
          if 0 < timers c
          then c\<lparr>timers := timers c - 1, trace := trace c @ [RouterPush ''/clients'']\<rparr>
          else c)"

fun run :: "ClientFormProps \<Rightarrow> config \<Rightarrow> event list \<Rightarrow> config" where
  "run p c [] = c"
| "run p c (ev # evs) = run p (step p c ev) evs"

text \<open>Every request with a body issued so far carries non-empty required fields.\<close>

definition bodies_filled :: "config \<Rightarrow> bool" where
  "bodies_filled c = (\<forall>r \<in> set (fetches (trace c)). \<forall>f. body r = Some f \<longrightarrow>
      full_name f \<noteq> JStr [] \<and> phone f \<noteq> JStr [] \<and> passport_number f \<noteq> JStr [])"

section \<open>Scenarios\<close>

text \<open>Concrete props, states and responses on which the theorems below are exercised.\<close>

definition create_props :: ClientFormProps where
  "create_props = \<lparr> clientId = None, isEditMode = False \<rparr>"

definition edit_props :: ClientFormProps where
  "edit_props = \<lparr> clientId = Some 42, isEditMode = True \<rparr>"

definition id_only_props :: ClientFormProps where
  "id_only_props = \<lparr> clientId = Some 42, isEditMode = False \<rparr>"

definition edit_without_id_props :: ClientFormProps where
  "edit_without_id_props = \<lparr> clientId = None, isEditMode = True \<rparr>"

definition edit_zero_id_props :: ClientFormProps where
  "edit_zero_id_props = \<lparr> clientId = Some 0, isEditMode = True \<rparr>"

definition filled_form :: ClientFormData where
  "filled_form = blank_form \<lparr> full_name := JStr ''Ivanov I.I.'', phone := JStr ''+70000000000'',
     passport_number := JStr ''1234 567890'' \<rparr>"

definition filled_state :: form_state where
  "filled_state = \<lparr> formData = filled_form, loading = False, submitting = True,
     error = JStr ''old error'', success = JStr ''old success'' \<rparr>"

definition body_created :: jsval where
  "body_created = JObj [(''success'', JBool True), (''message'', JStr ''Created'')]"

definition body_duplicate :: jsval where
  "body_duplicate = JObj [(''success'', JBool False), (''message'', JStr ''Duplicate passport'')]"

definition client_A :: "(string \<times> jsval) list" where
  "client_A = [(''full_name'', JStr ''A''), (''phone'', JStr ''1''),
     (''passport_number'', JStr ''P''), (''email'', JNull), (''notes'', JStr ''vip'')]"

definition body_client_A :: jsval where
  "body_client_A = JObj [(''success'', JBool True), (''client'', JObj client_A)]"

definition body_no_client :: jsval where
  "body_no_client = JObj [(''success'', JBool True)]"

section \<open>Auxiliary facts\<close>

lemma canned_nonempty:
  "msg_load_failed \<noteq> []" "msg_load_thrown \<noteq> []" "msg_submit_ok \<noteq> []"
  "msg_submit_failed \<noteq> []" "msg_submit_thrown \<noteq> []"
  by (simp_all add: msg_load_failed_def msg_load_thrown_def msg_submit_ok_def
      msg_submit_failed_def msg_submit_thrown_def)

lemma template_id_42: "template_id (Some 42) = ''42''"
  by (simp add: template_id_def number_to_string_def) code_simp

lemma fetches_append: "fetches (xs @ ys) = fetches xs @ fetches ys"
  by (induction xs rule: fetches.induct) simp_all

lemma handleSubmit_try_success:
  assumes "await_json out = Inr data" and "get_prop data ''success'' = Inr ok" and "truthy ok"
  shows "handleSubmit_try p s out =
     Inr ((if \<not> isEditMode p
           then s\<lparr>success := js_or (prop_of data ''message'') (JStr msg_submit_ok),
                  formData := blank_form\<rparr>
           else s\<lparr>success := js_or (prop_of data ''message'') (JStr msg_submit_ok)\<rparr>),
          [SetTimeout 2000 ''/clients''])"
  using assms by (simp add: handleSubmit_try_def Let_def)

lemma handleSubmit_try_failure:
  assumes "await_json out = Inr data" and "get_prop data ''success'' = Inr ok" and "\<not> truthy ok"
  shows "handleSubmit_try p s out =
     Inr (s\<lparr>error := js_or (prop_of data ''message'') (JStr msg_submit_failed)\<rparr>, [])"
  using assms by (simp add: handleSubmit_try_def)

lemma handleSubmit_try_thrown:
  assumes "await_json out = Inl e
           \<or> (await_json out = Inr data \<and> get_prop data ''success'' = Inl e)"
  shows "handleSubmit_try p s out = Inl e"
  using assms by (auto simp: handleSubmit_try_def)

lemma fetchClient_try_success:
  assumes "await_json out = Inr data" and "get_prop data ''success'' = Inr ok" and "truthy ok"
    and "truthy (prop_of data ''client'')"
  shows "fetchClient_try s out = Inr (s\<lparr>formData := client_form (prop_of data ''client'')\<rparr>)"
  using assms by (simp add: fetchClient_try_def)

lemma fetchClient_try_failure:
  assumes "await_json out = Inr data" and "get_prop data ''success'' = Inr ok"
    and "\<not> (truthy ok \<and> truthy (prop_of data ''client''))"
  shows "fetchClient_try s out =
           Inr (s\<lparr>error := js_or (prop_of data ''message'') (JStr msg_load_failed)\<rparr>)"
  using assms by (auto simp add: fetchClient_try_def)

lemma fetchClient_try_thrown:
  assumes "await_json out = Inl e
           \<or> (await_json out = Inr data \<and> get_prop data ''success'' = Inl e)"
  shows "fetchClient_try s out = Inl e"
  using assms by (auto simp: fetchClient_try_def)

lemma js_or_blank:
  "(v = JUndefined \<or> v = JNull \<longrightarrow> js_or v (JStr []) = JStr [])
   \<and> (\<forall>str. v = JStr str \<longrightarrow> js_or v (JStr []) = JStr str)
   \<and> (truthy v \<longrightarrow> js_or v (JStr []) = v)"
  by (auto simp: js_or_def)

lemma await_json_resolved: "await_json (FetchResolved \<lparr>status = n, body_json = Some d\<rparr>) = Inr d"
  by (simp add: await_json_def)

lemma loading_handleSubmit_resume: "loading (fst (handleSubmit_resume p s out)) = loading s"
  by (auto simp add: handleSubmit_resume_def handleSubmit_try_def Let_def
      split: sum.splits prod.splits if_splits)

lemma step_keeps_not_loading: "\<not> loading (st c) \<Longrightarrow> \<not> loading (st (step p c ev))"
proof (cases ev)
  case (LoadCompleted out)
  assume "\<not> loading (st c)"
  then show ?thesis
    by (simp add: LoadCompleted step_def fetchClient_resume_def split: sum.splits prod.splits)
next
  case (InputChanged n v)
  assume "\<not> loading (st c)"
  then show ?thesis
    by (simp add: InputChanged step_def render_def handleChange_def)
next
  case SubmitRequested
  assume "\<not> loading (st c)"
  then show ?thesis
    by (simp add: SubmitRequested step_def render_def handleSubmit_start_def)
next
  case (SubmitCompleted out)
  assume "\<not> loading (st c)"
  then show ?thesis
    using loading_handleSubmit_resume [of p "st c" out]
    by (auto simp: SubmitCompleted step_def split: prod.splits)
next
  case CancelClicked
  assume "\<not> loading (st c)"
  then show ?thesis
    by (simp add: CancelClicked step_def render_def)
next
  case TimerElapsed
  assume "\<not> loading (st c)"
  then show ?thesis
    by (simp add: TimerElapsed step_def)
qed

lemma run_keeps_not_loading: "\<not> loading (st c) \<Longrightarrow> \<not> loading (st (run p c evs))"
  by (induction evs arbitrary: c) (simp_all add: step_keeps_not_loading)

lemma create_never_loading: "\<not> isEditMode p \<Longrightarrow> \<not> loading (st (run p (mount p) evs))"
  by (rule run_keeps_not_loading) (simp add: mount_def initial_state_def)

section \<open>Create or update\<close>

text \<open>
  Against C1 as stated: mounted with an identifier (\<open>clientId = 42\<close>) and \<open>isEditMode\<close>
  left at its default, submit sends \<open>POST /api/clients\<close>, not \<open>PUT /api/clients/42\<close>.
\<close>

theorem identifier_without_edit_mode_posts:
  "clientId id_only_props = Some 42
   \<and> fetches (snd (handleSubmit_start id_only_props (initial_state id_only_props)))
       = [\<lparr> url = ''/api/clients'', http_method = ''POST'',
             headers = [(''Content-Type'', ''application/json'')], body = Some blank_form \<rparr>]
   \<and> http_method (submit_request id_only_props blank_form) \<noteq> ''PUT''"
  by (simp add: handleSubmit_start_def submit_request_def initial_state_def id_only_props_def)

text \<open>
  C1, amended: submit issues exactly one request, carrying the current fields, and chooses
  on the \<open>isEditMode\<close> flag given at mount: \<open>POST /api/clients\<close> when it is false (whether
  or not an identifier was supplied), \<open>PUT /api/clients/{clientId}\<close> when it is true.
\<close>

theorem submit_chooses_by_isEditMode:
  "fetches (snd (handleSubmit_start p s)) = [submit_request p (formData s)]
   \<and> body (submit_request p f) = Some f
   \<and> (\<not> isEditMode p \<longrightarrow>
        http_method (submit_request p f) = ''POST''
        \<and> url (submit_request p f) = ''/api/clients'')
   \<and> (isEditMode p \<longrightarrow>
        http_method (submit_request p f) = ''PUT''
        \<and> url (submit_request p f) = ''/api/clients/'' @ template_id (clientId p))"
  by (simp add: handleSubmit_start_def submit_request_def)

theorem submit_chooses_by_isEditMode_witness:
  "\<not> isEditMode id_only_props
   \<and> http_method (submit_request id_only_props filled_form) = ''POST''
   \<and> url (submit_request id_only_props filled_form) = ''/api/clients''
   \<and> isEditMode edit_props
   \<and> http_method (submit_request edit_props filled_form) = ''PUT''
   \<and> url (submit_request edit_props filled_form) = ''/api/clients/42''"
proof -
  have a: "\<not> isEditMode id_only_props" and b: "isEditMode edit_props"
    and c: "clientId edit_props = Some 42"
    by (simp_all add: id_only_props_def edit_props_def)
  show ?thesis
    using submit_chooses_by_isEditMode [of id_only_props filled_state filled_form]
      submit_chooses_by_isEditMode [of edit_props filled_state filled_form]
      a b c template_id_42
    by simp
qed

section \<open>Successful submission\<close>

text \<open>
  C2: in create mode, when the parsed response body has a truthy \<open>success\<close>, the success
  message is the server's \<open>message\<close> or else the default, all ten fields are reset to the
  empty string, and exactly one navigation to \<open>/clients\<close> is scheduled, 2000 ms later;
  nothing navigates at once. The message is shown: a component mounted in create mode
  is never loading, and on a state that is not loading the page is rendered with the
  success banner holding the server's message when that is a non-empty string, and the
  default text when the server supplies none, above the ten blank controls and the
  enabled submit button.
\<close>

theorem create_success_resets_and_redirects:
  assumes "\<not> isEditMode p"
    and "await_json out = Inr data"
    and "get_prop data ''success'' = Inr ok"
    and "truthy ok"
  shows "success (fst (handleSubmit_resume p s out)) =
           (if truthy (prop_of data ''message'') then prop_of data ''message''
            else JStr msg_submit_ok)
       \<and> truthy (success (fst (handleSubmit_resume p s out)))
       \<and> formData (fst (handleSubmit_resume p s out)) =
           \<lparr> full_name = JStr [], email = JStr [], phone = JStr [], address = JStr [],
             passport_number = JStr [], passport_issue_date = JStr [],
             passport_expiry_date = JStr [], driver_license_number = JStr [],
             driver_license_expiry = JStr [], notes' = JStr [] \<rparr>
       \<and> scheduled (snd (handleSubmit_resume p s out)) = [(2000, ''/clients'')]
       \<and> pushes (snd (handleSubmit_resume p s out)) = []
       \<and> \<not> loading (st (run p (mount p) evs))
       \<and> (\<not> loading s \<longrightarrow>
            (\<forall>m. prop_of data ''message'' = JStr m \<and> m \<noteq> [] \<longrightarrow>
               render (fst (handleSubmit_resume p s out)) =
                 FormView (if truthy (error s) then Some (error s) else None) (Some (JStr m))
                   (form_inputs blank_form) False)
            \<and> (\<not> truthy (prop_of data ''message'') \<longrightarrow>
               render (fst (handleSubmit_resume p s out)) =
                 FormView (if truthy (error s) then Some (error s) else None)
                   (Some (JStr msg_submit_ok)) (form_inputs blank_form) False))"
proof -
  have r: "handleSubmit_resume p s out =
      (s\<lparr>success := js_or (prop_of data ''message'') (JStr msg_submit_ok),
         formData := blank_form, submitting := False\<rparr>, [SetTimeout 2000 ''/clients''])"
    using assms(1) handleSubmit_try_success [OF assms(2-4), of p s]
    by (simp add: handleSubmit_resume_def)
  have state: "success (fst (handleSubmit_resume p s out)) =
           (if truthy (prop_of data ''message'') then prop_of data ''message''
            else JStr msg_submit_ok)
       \<and> truthy (success (fst (handleSubmit_resume p s out)))
       \<and> formData (fst (handleSubmit_resume p s out)) =
           \<lparr> full_name = JStr [], email = JStr [], phone = JStr [], address = JStr [],
             passport_number = JStr [], passport_issue_date = JStr [],
             passport_expiry_date = JStr [], driver_license_number = JStr [],
             driver_license_expiry = JStr [], notes' = JStr [] \<rparr>
       \<and> scheduled (snd (handleSubmit_resume p s out)) = [(2000, ''/clients'')]
       \<and> pushes (snd (handleSubmit_resume p s out)) = []"
    unfolding r by (simp add: js_or_def blank_form_def canned_nonempty)
  have never: "\<not> loading (st (run p (mount p) evs))"
    using assms(1) by (rule create_never_loading)
  have shown: "render (fst (handleSubmit_resume p s out)) =
                 FormView (if truthy (error s) then Some (error s) else None) (Some (JStr m))
                   (form_inputs blank_form) False"
    if "\<not> loading s" and "prop_of data ''message'' = JStr m" and "m \<noteq> []" for m
    unfolding r using that by (simp add: render_def js_or_def)
  have shown_default: "render (fst (handleSubmit_resume p s out)) =
                 FormView (if truthy (error s) then Some (error s) else None)
                   (Some (JStr msg_submit_ok)) (form_inputs blank_form) False"
    if "\<not> loading s" and "\<not> truthy (prop_of data ''message'')"
    unfolding r using that by (simp add: render_def js_or_def canned_nonempty)
  show ?thesis
    using state never shown shown_default by blast
qed

theorem create_success_resets_and_redirects_witness:
  "\<not> isEditMode create_props
   \<and> await_json (FetchResolved \<lparr>status = 200, body_json = Some body_created\<rparr>) = Inr body_created
   \<and> get_prop body_created ''success'' = Inr (JBool True)
   \<and> truthy (JBool True)
   \<and> full_name (formData filled_state) = JStr ''Ivanov I.I.''
   \<and> success (fst (handleSubmit_resume create_props filled_state
         (FetchResolved \<lparr>status = 200, body_json = Some body_created\<rparr>))) = JStr ''Created''
   \<and> formData (fst (handleSubmit_resume create_props filled_state
         (FetchResolved \<lparr>status = 200, body_json = Some body_created\<rparr>))) = blank_form
   \<and> scheduled (snd (handleSubmit_resume create_props filled_state
         (FetchResolved \<lparr>status = 200, body_json = Some body_created\<rparr>))) = [(2000, ''/clients'')]
   \<and> \<not> loading filled_state
   \<and> prop_of body_created ''message'' = JStr ''Created'' \<and> ''Created'' \<noteq> []
   \<and> render (fst (handleSubmit_resume create_props filled_state
         (FetchResolved \<lparr>status = 200, body_json = Some body_created\<rparr>)))
       = FormView (Some (JStr ''old error'')) (Some (JStr ''Created''))
           (form_inputs blank_form) False
   \<and> \<not> truthy (prop_of body_no_client ''message'')
   \<and> render (fst (handleSubmit_resume create_props (fst (handleSubmit_start create_props filled_state))
         (FetchResolved \<lparr>status = 200, body_json = Some body_no_client\<rparr>)))
       = FormView None (Some (JStr msg_submit_ok)) (form_inputs blank_form) False
   \<and> \<not> loading (st (run create_props (mount create_props)
         [InputChanged ''full_name'' ''Ivanov I.I.'', SubmitRequested]))"
proof -
  let ?s1 = "fst (handleSubmit_start create_props filled_state)"
  have a: "\<not> isEditMode create_props"
    by (simp add: create_props_def)
  have b: "await_json (FetchResolved \<lparr>status = 200, body_json = Some body_created\<rparr>)
             = Inr body_created"
    and b': "await_json (FetchResolved \<lparr>status = 200, body_json = Some body_no_client\<rparr>)
             = Inr body_no_client"
    by (rule await_json_resolved)+
  have c: "get_prop body_created ''success'' = Inr (JBool True)"
    and c': "get_prop body_no_client ''success'' = Inr (JBool True)"
    by (simp_all add: body_created_def body_no_client_def)
  have d: "truthy (JBool True)"
    by simp
  have m: "prop_of body_created ''message'' = JStr ''Created''"
    and m': "prop_of body_no_client ''message'' = JUndefined"
    by (simp_all add: body_created_def body_no_client_def prop_of_def)
  have f: "full_name (formData filled_state) = JStr ''Ivanov I.I.''"
    and l: "\<not> loading filled_state" and e: "error filled_state = JStr ''old error''"
    and l1: "\<not> loading ?s1" and e1: "error ?s1 = JStr []"
    by (simp_all add: filled_state_def filled_form_def handleSubmit_start_def)
  show ?thesis
    using create_success_resets_and_redirects [OF a b c d, of filled_state
        "[InputChanged ''full_name'' ''Ivanov I.I.'', SubmitRequested]"]
      create_success_resets_and_redirects [OF a b' c' d, of ?s1 "[]"]
      a b c f l l1
    by (simp add: m m' e e1 blank_form_def)
qed

text \<open>
  C3: in edit mode, when the parsed response body has a truthy \<open>success\<close>, the fields keep
  their current values (over the continuation and over the whole submission), and the
  same single navigation to \<open>/clients\<close> is scheduled 2000 ms later.
\<close>

theorem edit_success_keeps_fields:
  assumes "isEditMode p"
    and "await_json out = Inr data"
    and "get_prop data ''success'' = Inr ok"
    and "truthy ok"
  shows "formData (fst (handleSubmit_resume p s out)) = formData s
       \<and> formData (fst (handleSubmit p s out)) = formData s
       \<and> scheduled (snd (handleSubmit_resume p s out)) = [(2000, ''/clients'')]
       \<and> pushes (snd (handleSubmit_resume p s out)) = []"
proof -
  have r: "handleSubmit_resume p s' out =
      (s'\<lparr>success := js_or (prop_of data ''message'') (JStr msg_submit_ok),
          submitting := False\<rparr>, [SetTimeout 2000 ''/clients''])" for s'
    using assms(1) handleSubmit_try_success [OF assms(2-4), of p s']
    by (simp add: handleSubmit_resume_def)
  show ?thesis
    by (simp add: r handleSubmit_def handleSubmit_start_def)
qed

theorem edit_success_keeps_fields_witness:
  "isEditMode edit_props
   \<and> await_json (FetchResolved \<lparr>status = 200, body_json = Some body_created\<rparr>) = Inr body_created
   \<and> get_prop body_created ''success'' = Inr (JBool True)
   \<and> truthy (JBool True)
   \<and> formData (fst (handleSubmit_resume edit_props filled_state
         (FetchResolved \<lparr>status = 200, body_json = Some body_created\<rparr>))) = filled_form
   \<and> filled_form \<noteq> blank_form
   \<and> scheduled (snd (handleSubmit_resume edit_props filled_state
         (FetchResolved \<lparr>status = 200, body_json = Some body_created\<rparr>))) = [(2000, ''/clients'')]"
proof -
  have a: "isEditMode edit_props"
    by (simp add: edit_props_def)
  have b: "await_json (FetchResolved \<lparr>status = 200, body_json = Some body_created\<rparr>)
             = Inr body_created"
    by (rule await_json_resolved)
  have c: "get_prop body_created ''success'' = Inr (JBool True)"
    by (simp add: body_created_def)
  have d: "truthy (JBool True)"
    by simp
  have f: "formData filled_state = filled_form" and g: "filled_form \<noteq> blank_form"
    by (simp_all add: filled_state_def filled_form_def blank_form_def)
  show ?thesis
    using edit_success_keeps_fields [OF a b c d, of filled_state] a b c f g
    by simp
qed


section \<open>Loading an existing record\<close>

text \<open>
  C4: when the parsed body of the load response has a truthy \<open>success\<close> and carries a
  client object, the required fields (\<open>full_name\<close>, \<open>phone\<close>, \<open>passport_number\<close>) are
  exactly what the client object holds under those names, and each of the seven optional
  fields is the empty string when the object has \<open>null\<close> or nothing under its name, and
  is the server's value when that is a string or any other truthy value. The error
  message is left as it was and loading ends.
\<close>

theorem load_success_populates:
  assumes "await_json out = Inr data"
    and "get_prop data ''success'' = Inr ok"
    and "truthy ok"
    and "prop_of data ''client'' = JObj kvs"
    and "f = formData (fst (fetchClient_resume s out))"
  shows "full_name f = prop_of (JObj kvs) ''full_name''
       \<and> phone f = prop_of (JObj kvs) ''phone''
       \<and> passport_number f = prop_of (JObj kvs) ''passport_number''
       \<and> (\<forall>(k, v) \<in> set [(''email'', email f), (''address'', address f),
              (''passport_issue_date'', passport_issue_date f),
              (''passport_expiry_date'', passport_expiry_date f),
              (''driver_license_number'', driver_license_number f),
              (''driver_license_expiry'', driver_license_expiry f),
              (''notes'', notes' f)].
            (prop_of (JObj kvs) k = JUndefined \<or> prop_of (JObj kvs) k = JNull \<longrightarrow> v = JStr [])
            \<and> (\<forall>str. prop_of (JObj kvs) k = JStr str \<longrightarrow> v = JStr str)
            \<and> (truthy (prop_of (JObj kvs) k) \<longrightarrow> v = prop_of (JObj kvs) k))
       \<and> \<not> loading (fst (fetchClient_resume s out))
       \<and> error (fst (fetchClient_resume s out)) = error s"
proof -
  have t: "truthy (prop_of data ''client'')"
    using assms(4) by simp
  have r: "fetchClient_resume s out =
      (s\<lparr>formData := client_form (JObj kvs), loading := False\<rparr>, [])"
    using fetchClient_try_success [OF assms(1-3) t, of s] assms(4)
    by (simp add: fetchClient_resume_def)
  have f: "f = client_form (JObj kvs)"
    using assms(5) by (simp add: r)
  show ?thesis
    unfolding f r using js_or_blank
    by (simp add: client_form_def)
qed

theorem load_success_populates_witness:
  "await_json (FetchResolved \<lparr>status = 200, body_json = Some body_client_A\<rparr>) = Inr body_client_A
   \<and> get_prop body_client_A ''success'' = Inr (JBool True)
   \<and> truthy (JBool True)
   \<and> prop_of body_client_A ''client'' = JObj client_A
   \<and> formData (fst (fetchClient_resume (initial_state edit_props)
         (FetchResolved \<lparr>status = 200, body_json = Some body_client_A\<rparr>)))
       = blank_form \<lparr> full_name := JStr ''A'', phone := JStr ''1'',
           passport_number := JStr ''P'', notes' := JStr ''vip'' \<rparr>
   \<and> \<not> loading (fst (fetchClient_resume (initial_state edit_props)
         (FetchResolved \<lparr>status = 200, body_json = Some body_client_A\<rparr>)))"
proof -
  let ?out = "FetchResolved \<lparr>status = 200, body_json = Some body_client_A\<rparr>"
  let ?f = "formData (fst (fetchClient_resume (initial_state edit_props) ?out))"
  have a: "await_json ?out = Inr body_client_A"
    by (rule await_json_resolved)
  have b: "get_prop body_client_A ''success'' = Inr (JBool True)"
    by (simp add: body_client_A_def)
  have c: "truthy (JBool True)"
    by simp
  have d: "prop_of body_client_A ''client'' = JObj client_A"
    by (simp add: body_client_A_def prop_of_def)
  have p: "prop_of (JObj client_A) ''full_name'' = JStr ''A''"
    "prop_of (JObj client_A) ''phone'' = JStr ''1''"
    "prop_of (JObj client_A) ''passport_number'' = JStr ''P''"
    "prop_of (JObj client_A) ''email'' = JNull"
    "prop_of (JObj client_A) ''address'' = JUndefined"
    "prop_of (JObj client_A) ''passport_issue_date'' = JUndefined"
    "prop_of (JObj client_A) ''passport_expiry_date'' = JUndefined"
    "prop_of (JObj client_A) ''driver_license_number'' = JUndefined"
    "prop_of (JObj client_A) ''driver_license_expiry'' = JUndefined"
    "prop_of (JObj client_A) ''notes'' = JStr ''vip''"
    by (simp_all add: client_A_def prop_of_def)
  have e: "full_name ?f = JStr ''A'' \<and> phone ?f = JStr ''1'' \<and> passport_number ?f = JStr ''P''
      \<and> email ?f = JStr [] \<and> address ?f = JStr [] \<and> passport_issue_date ?f = JStr []
      \<and> passport_expiry_date ?f = JStr [] \<and> driver_license_number ?f = JStr []
      \<and> driver_license_expiry ?f = JStr [] \<and> notes' ?f = JStr ''vip''
      \<and> \<not> loading (fst (fetchClient_resume (initial_state edit_props) ?out))"
    using load_success_populates [OF a b c d refl, of "initial_state edit_props"]
    by (simp add: p)
  have "?f = blank_form \<lparr> full_name := JStr ''A'', phone := JStr ''1'',
           passport_number := JStr ''P'', notes' := JStr ''vip'' \<rparr>"
    using e by (cases ?f) (simp add: blank_form_def)
  then show ?thesis
    using a b c d e by simp
qed

section \<open>Failed submission\<close>

text \<open>
  C6: when the submit fails, no navigation is scheduled or made and the fields are
  untouched. If the parsed body reports failure (a falsy \<open>success\<close>), the error message is
  the server's \<open>message\<close> when that is truthy and a canned fallback otherwise; if the
  request or the parsing throws, it is a second canned text, different from the first.
  In every case the message is non-empty, so the banner shows.
\<close>

theorem submit_failure_no_navigation:
  "(await_json out = Inr data \<and> get_prop data ''success'' = Inr ok \<and> \<not> truthy ok \<longrightarrow>
      scheduled (snd (handleSubmit_resume p s out)) = []
      \<and> pushes (snd (handleSubmit_resume p s out)) = []
      \<and> formData (fst (handleSubmit_resume p s out)) = formData s
      \<and> error (fst (handleSubmit_resume p s out)) =
          (if truthy (prop_of data ''message'') then prop_of data ''message''
           else JStr msg_submit_failed)
      \<and> truthy (error (fst (handleSubmit_resume p s out))))
   \<and> (await_json out = Inl e
        \<or> (await_json out = Inr data \<and> get_prop data ''success'' = Inl e) \<longrightarrow>
      scheduled (snd (handleSubmit_resume p s out)) = []
      \<and> pushes (snd (handleSubmit_resume p s out)) = []
      \<and> formData (fst (handleSubmit_resume p s out)) = formData s
      \<and> error (fst (handleSubmit_resume p s out)) = JStr msg_submit_thrown
      \<and> truthy (error (fst (handleSubmit_resume p s out))))
   \<and> msg_submit_thrown \<noteq> msg_submit_failed"
proof (intro conjI impI)
  assume a: "await_json out = Inr data \<and> get_prop data ''success'' = Inr ok \<and> \<not> truthy ok"
  have r: "handleSubmit_resume p s out =
      (s\<lparr>error := js_or (prop_of data ''message'') (JStr msg_submit_failed),
         submitting := False\<rparr>, [])"
    using a handleSubmit_try_failure [of out data ok p s]
    by (simp add: handleSubmit_resume_def)
  show "scheduled (snd (handleSubmit_resume p s out)) = []"
    and "pushes (snd (handleSubmit_resume p s out)) = []"
    and "formData (fst (handleSubmit_resume p s out)) = formData s"
    and "error (fst (handleSubmit_resume p s out)) =
          (if truthy (prop_of data ''message'') then prop_of data ''message''
           else JStr msg_submit_failed)"
    and "truthy (error (fst (handleSubmit_resume p s out)))"
    unfolding r by (simp_all add: js_or_def canned_nonempty)
next
  assume a: "await_json out = Inl e
        \<or> (await_json out = Inr data \<and> get_prop data ''success'' = Inl e)"
  have r: "handleSubmit_resume p s out =
      (s\<lparr>error := JStr msg_submit_thrown, submitting := False\<rparr>,
       [ConsoleError ''Submit error:''])"
    using handleSubmit_try_thrown [OF a, of p s]
    by (simp add: handleSubmit_resume_def)
  show "scheduled (snd (handleSubmit_resume p s out)) = []"
    and "pushes (snd (handleSubmit_resume p s out)) = []"
    and "formData (fst (handleSubmit_resume p s out)) = formData s"
    and "error (fst (handleSubmit_resume p s out)) = JStr msg_submit_thrown"
    and "truthy (error (fst (handleSubmit_resume p s out)))"
    unfolding r by (simp_all add: canned_nonempty)
next
  show "msg_submit_thrown \<noteq> msg_submit_failed"
    by (simp add: msg_submit_thrown_def msg_submit_failed_def)
qed

theorem submit_failure_no_navigation_witness:
  "await_json (FetchResolved \<lparr>status = 200, body_json = Some body_duplicate\<rparr>) = Inr body_duplicate
   \<and> get_prop body_duplicate ''success'' = Inr (JBool False)
   \<and> \<not> truthy (JBool False)
   \<and> scheduled (snd (handleSubmit_resume create_props filled_state
        (FetchResolved \<lparr>status = 200, body_json = Some body_duplicate\<rparr>))) = []
   \<and> formData (fst (handleSubmit_resume create_props filled_state
        (FetchResolved \<lparr>status = 200, body_json = Some body_duplicate\<rparr>))) = filled_form
   \<and> error (fst (handleSubmit_resume create_props filled_state
        (FetchResolved \<lparr>status = 200, body_json = Some body_duplicate\<rparr>)))
       = JStr ''Duplicate passport''
   \<and> await_json FetchRejected = Inl FetchFailed
   \<and> scheduled (snd (handleSubmit_resume create_props filled_state FetchRejected)) = []
   \<and> formData (fst (handleSubmit_resume create_props filled_state FetchRejected)) = filled_form
   \<and> error (fst (handleSubmit_resume create_props filled_state FetchRejected))
       = JStr msg_submit_thrown
   \<and> get_prop JNull ''success'' = Inl PropertyOfNullish
   \<and> error (fst (handleSubmit_resume create_props filled_state
        (FetchResolved \<lparr>status = 200, body_json = Some JNull\<rparr>))) = JStr msg_submit_thrown"
proof -
  let ?dup = "FetchResolved \<lparr>status = 200, body_json = Some body_duplicate\<rparr>"
  let ?nul = "FetchResolved \<lparr>status = 200, body_json = Some JNull\<rparr>"
  have a: "await_json ?dup = Inr body_duplicate" and a': "await_json ?nul = Inr JNull"
    by (rule await_json_resolved)+
  have b: "get_prop body_duplicate ''success'' = Inr (JBool False)"
    by (simp add: body_duplicate_def)
  have c: "\<not> truthy (JBool False)"
    by simp
  have m: "prop_of body_duplicate ''message'' = JStr ''Duplicate passport''"
    by (simp add: body_duplicate_def prop_of_def)
  have d: "await_json FetchRejected = Inl FetchFailed"
    by (simp add: await_json_def)
  have g: "get_prop JNull ''success'' = Inl PropertyOfNullish"
    by simp
  have f: "formData filled_state = filled_form"
    by (simp add: filled_state_def)
  show ?thesis
    using submit_failure_no_navigation
            [of ?dup body_duplicate "JBool False" create_props filled_state FetchFailed]
      submit_failure_no_navigation
            [of FetchRejected body_duplicate "JBool False" create_props filled_state FetchFailed]
      submit_failure_no_navigation
            [of ?nul JNull "JBool False" create_props filled_state PropertyOfNullish]
      a a' b c d g
    by (simp add: m f)
qed

section \<open>The Submitting state\<close>

text \<open>
  C7: the synchronous part of submit clears the error and the success message and sets
  \<open>submitting\<close>; the continuation ends with \<open>submitting\<close> false for every outcome of the
  request, and so does the submission as a whole.
\<close>

theorem submitting_entered_and_left:
  "submitting (fst (handleSubmit_start p s))
   \<and> error (fst (handleSubmit_start p s)) = JStr []
   \<and> success (fst (handleSubmit_start p s)) = JStr []
   \<and> \<not> submitting (fst (handleSubmit_resume p s' out))
   \<and> \<not> submitting (fst (handleSubmit p s out))"
  by (simp add: handleSubmit_start_def handleSubmit_resume_def handleSubmit_def
      split: sum.splits prod.splits)

theorem submitting_entered_and_left_witness:
  "error filled_state = JStr ''old error''
   \<and> error (fst (handleSubmit_start create_props filled_state)) = JStr []
   \<and> success (fst (handleSubmit_start create_props filled_state)) = JStr []
   \<and> submitting (fst (handleSubmit_start create_props filled_state))
   \<and> \<not> submitting (fst (handleSubmit_resume create_props filled_state FetchRejected))
   \<and> \<not> submitting (fst (handleSubmit create_props filled_state
          (FetchResolved \<lparr>status = 200, body_json = Some body_duplicate\<rparr>)))"
  using submitting_entered_and_left [of create_props filled_state filled_state FetchRejected]
    submitting_entered_and_left [of create_props filled_state filled_state
      "FetchResolved \<lparr>status = 200, body_json = Some body_duplicate\<rparr>"]
  by (simp add: filled_state_def)

section \<open>Classification by the body alone\<close>

text \<open>
  C9: the continuations of load and submit do not depend on the HTTP status of the
  response. A response outside 200..299 whose body has a truthy \<open>success\<close> is handled as
  a success (navigation scheduled and no error set on submit; the form populated on load
  when a truthy \<open>client\<close> is present), and a response inside 200..299 whose body has a
  falsy \<open>success\<close> is handled as a failure (no navigation, an error message set).
\<close>

theorem classification_ignores_status:
  "fetchClient_resume s (FetchResolved (r\<lparr>status := n\<rparr>)) = fetchClient_resume s (FetchResolved r)
   \<and> handleSubmit_resume p s (FetchResolved (r\<lparr>status := n\<rparr>))
       = handleSubmit_resume p s (FetchResolved r)
   \<and> (\<not> (200 \<le> status r \<and> status r < 300) \<and> body_json r = Some data
        \<and> get_prop data ''success'' = Inr ok \<and> truthy ok \<longrightarrow>
        scheduled (snd (handleSubmit_resume p s (FetchResolved r))) = [(2000, ''/clients'')]
        \<and> error (fst (handleSubmit_resume p s (FetchResolved r))) = error s
        \<and> truthy (success (fst (handleSubmit_resume p s (FetchResolved r))))
        \<and> (truthy (prop_of data ''client'') \<longrightarrow>
             formData (fst (fetchClient_resume s (FetchResolved r)))
               = client_form (prop_of data ''client'')
             \<and> error (fst (fetchClient_resume s (FetchResolved r))) = error s))
   \<and> (200 \<le> status r \<and> status r < 300 \<and> body_json r = Some data
        \<and> get_prop data ''success'' = Inr ok \<and> \<not> truthy ok \<longrightarrow>
        scheduled (snd (handleSubmit_resume p s (FetchResolved r))) = []
        \<and> success (fst (handleSubmit_resume p s (FetchResolved r))) = success s
        \<and> truthy (error (fst (handleSubmit_resume p s (FetchResolved r))))
        \<and> formData (fst (fetchClient_resume s (FetchResolved r))) = formData s
        \<and> truthy (error (fst (fetchClient_resume s (FetchResolved r)))))"
proof (intro conjI impI)
  show "fetchClient_resume s (FetchResolved (r\<lparr>status := n\<rparr>))
          = fetchClient_resume s (FetchResolved r)"
    by (simp add: fetchClient_resume_def fetchClient_try_def await_json_def)
  show "handleSubmit_resume p s (FetchResolved (r\<lparr>status := n\<rparr>))
          = handleSubmit_resume p s (FetchResolved r)"
    by (simp add: handleSubmit_resume_def handleSubmit_try_def await_json_def)
next
  assume h: "\<not> (200 \<le> status r \<and> status r < 300) \<and> body_json r = Some data
        \<and> get_prop data ''success'' = Inr ok \<and> truthy ok"
  then have a: "await_json (FetchResolved r) = Inr data"
    and b: "get_prop data ''success'' = Inr ok" and c: "truthy ok"
    by (simp_all add: await_json_def)
  have t: "handleSubmit_resume p s (FetchResolved r) =
      ((if \<not> isEditMode p
        then s\<lparr>success := js_or (prop_of data ''message'') (JStr msg_submit_ok),
               formData := blank_form, submitting := False\<rparr>
        else s\<lparr>success := js_or (prop_of data ''message'') (JStr msg_submit_ok),
               submitting := False\<rparr>), [SetTimeout 2000 ''/clients''])"
    using handleSubmit_try_success [OF a b c, of p s]
    by (simp add: handleSubmit_resume_def)
  show "scheduled (snd (handleSubmit_resume p s (FetchResolved r))) = [(2000, ''/clients'')]"
    and "error (fst (handleSubmit_resume p s (FetchResolved r))) = error s"
    and "truthy (success (fst (handleSubmit_resume p s (FetchResolved r))))"
    unfolding t by (simp_all add: js_or_def canned_nonempty)
  assume k: "truthy (prop_of data ''client'')"
  have u: "fetchClient_resume s (FetchResolved r) =
      (s\<lparr>formData := client_form (prop_of data ''client''), loading := False\<rparr>, [])"
    using fetchClient_try_success [OF a b c k, of s]
    by (simp add: fetchClient_resume_def)
  show "formData (fst (fetchClient_resume s (FetchResolved r)))
          = client_form (prop_of data ''client'')"
    and "error (fst (fetchClient_resume s (FetchResolved r))) = error s"
    unfolding u by simp_all
next
  assume h: "200 \<le> status r \<and> status r < 300 \<and> body_json r = Some data
        \<and> get_prop data ''success'' = Inr ok \<and> \<not> truthy ok"
  then have a: "await_json (FetchResolved r) = Inr data"
    and b: "get_prop data ''success'' = Inr ok" and c: "\<not> truthy ok"
    by (simp_all add: await_json_def)
  have t: "handleSubmit_resume p s (FetchResolved r) =
      (s\<lparr>error := js_or (prop_of data ''message'') (JStr msg_submit_failed),
         submitting := False\<rparr>, [])"
    using handleSubmit_try_failure [OF a b c, of p s]
    by (simp add: handleSubmit_resume_def)
  show "scheduled (snd (handleSubmit_resume p s (FetchResolved r))) = []"
    and "success (fst (handleSubmit_resume p s (FetchResolved r))) = success s"
    and "truthy (error (fst (handleSubmit_resume p s (FetchResolved r))))"
    unfolding t by (simp_all add: js_or_def canned_nonempty)
  have u: "fetchClient_resume s (FetchResolved r) =
      (s\<lparr>error := js_or (prop_of data ''message'') (JStr msg_load_failed),
         loading := False\<rparr>, [])"
    using fetchClient_try_failure [OF a b, of s] c
    by (simp add: fetchClient_resume_def)
  show "formData (fst (fetchClient_resume s (FetchResolved r))) = formData s"
    and "truthy (error (fst (fetchClient_resume s (FetchResolved r))))"
    unfolding u by (simp_all add: js_or_def canned_nonempty)
qed

theorem classification_ignores_status_witness:
  "\<not> (200 \<le> (500::nat) \<and> (500::nat) < 300)
   \<and> get_prop body_created ''success'' = Inr (JBool True)
   \<and> scheduled (snd (handleSubmit_resume create_props filled_state
        (FetchResolved \<lparr>status = 500, body_json = Some body_created\<rparr>))) = [(2000, ''/clients'')]
   \<and> error (fst (handleSubmit_resume create_props filled_state
        (FetchResolved \<lparr>status = 500, body_json = Some body_created\<rparr>))) = error filled_state
   \<and> truthy (prop_of body_client_A ''client'')
   \<and> formData (fst (fetchClient_resume (initial_state edit_props)
        (FetchResolved \<lparr>status = 500, body_json = Some body_client_A\<rparr>)))
       = client_form (JObj client_A)
   \<and> (200 \<le> (200::nat) \<and> (200::nat) < 300)
   \<and> get_prop body_duplicate ''success'' = Inr (JBool False)
   \<and> scheduled (snd (handleSubmit_resume create_props filled_state
        (FetchResolved \<lparr>status = 200, body_json = Some body_duplicate\<rparr>))) = []
   \<and> truthy (error (fst (handleSubmit_resume create_props filled_state
        (FetchResolved \<lparr>status = 200, body_json = Some body_duplicate\<rparr>))))
   \<and> truthy (error (fst (fetchClient_resume (initial_state edit_props)
        (FetchResolved \<lparr>status = 200, body_json = Some body_duplicate\<rparr>))))"
proof -
  have b: "get_prop body_created ''success'' = Inr (JBool True)"
    and b': "get_prop body_client_A ''success'' = Inr (JBool True)"
    and c: "get_prop body_duplicate ''success'' = Inr (JBool False)"
    and d: "prop_of body_client_A ''client'' = JObj client_A"
    by (simp_all add: body_created_def body_duplicate_def body_client_A_def prop_of_def)
  show ?thesis
    using classification_ignores_status
        [where s = filled_state and r = "\<lparr>status = 500, body_json = Some body_created\<rparr>"
           and p = create_props and data = body_created and ok = "JBool True"]
      classification_ignores_status
        [where s = "initial_state edit_props"
           and r = "\<lparr>status = 500, body_json = Some body_client_A\<rparr>"
           and p = create_props and data = body_client_A and ok = "JBool True"]
      classification_ignores_status
        [where s = filled_state and r = "\<lparr>status = 200, body_json = Some body_duplicate\<rparr>"
           and p = create_props and data = body_duplicate and ok = "JBool False"]
      classification_ignores_status
        [where s = "initial_state edit_props"
           and r = "\<lparr>status = 200, body_json = Some body_duplicate\<rparr>"
           and p = create_props and data = body_duplicate and ok = "JBool False"]
      b b' c d
    by simp
qed


section \<open>The mounted component over time\<close>

lemma fetches_fetchClient_resume: "fetches (snd (fetchClient_resume s out)) = []"
  by (simp add: fetchClient_resume_def split: sum.splits prod.splits)

lemma fetches_handleSubmit_resume: "fetches (snd (handleSubmit_resume p s out)) = []"
  by (auto simp add: handleSubmit_resume_def handleSubmit_try_def Let_def
      split: sum.splits prod.splits if_splits)

lemma run_fixed: "(\<And>ev. step p c ev = c) \<Longrightarrow> run p c evs = c"
  by (induction evs) simp_all

lemma step_keeps_not_pending: "\<not> load_pending c \<Longrightarrow> \<not> load_pending (step p c ev)"
  by (cases ev) (auto simp: step_def render_def split: prod.splits)

lemma step_mount_pending:
  assumes "load_pending (mount p)"
  shows "step p (mount p) ev = mount p \<or> \<not> load_pending (step p (mount p) ev)"
proof -
  have e: "isEditMode p"
    using assms by (simp add: mount_def split: if_splits)
  show ?thesis
    using e by (cases ev)
      (auto simp: step_def mount_def render_def initial_state_def split: prod.splits)
qed

lemma pending_only_at_mount_step:
  assumes "load_pending c \<longrightarrow> c = mount p"
  shows "load_pending (step p c ev) \<longrightarrow> step p c ev = mount p"
proof (cases "load_pending c")
  case True
  then have "c = mount p" using assms by simp
  then show ?thesis
    using True step_mount_pending [of p ev] by auto
next
  case False
  then show ?thesis
    using step_keeps_not_pending [of c p ev] by simp
qed

lemma pending_only_at_mount_run:
  "(load_pending c \<longrightarrow> c = mount p) \<Longrightarrow>
   load_pending (run p c evs) \<longrightarrow> run p c evs = mount p"
proof (induction evs arbitrary: c)
  case Nil
  then show ?case by simp
next
  case (Cons ev evs)
  show ?case
    using Cons.IH [OF pending_only_at_mount_step [OF Cons.prems, of ev]] by simp
qed

lemma pending_only_at_mount:
  "load_pending (run p (mount p) evs) \<Longrightarrow> run p (mount p) evs = mount p"
  using pending_only_at_mount_run [of "mount p" p evs] by simp

lemma step_load_completed:
  "load_pending c \<Longrightarrow>
   st (step p c (LoadCompleted out)) = fst (fetchClient_resume (st c) out)
   \<and> \<not> load_pending (step p c (LoadCompleted out))"
  by (simp add: step_def split: prod.splits)

text \<open>
  C5: whenever a load is in flight and completes with a failure, all ten fields are the
  empty string and a non-empty error message is set: the server's \<open>message\<close> or a fallback
  when the body reports failure or carries no client, a second canned text when the
  request or the parsing throws. Whatever the outcome of the load, \<open>loading\<close> is false
  afterwards and the page is rendered in place of the loading indicator.
\<close>

theorem load_failure_keeps_blank:
  assumes "load_pending (run p (mount p) evs)"
    and "c' = step p (run p (mount p) evs) (LoadCompleted out)"
  shows "(await_json out = Inr data \<and> get_prop data ''success'' = Inr ok
            \<and> \<not> (truthy ok \<and> truthy (prop_of data ''client'')) \<longrightarrow>
          formData (st c') =
            \<lparr> full_name = JStr [], email = JStr [], phone = JStr [], address = JStr [],
              passport_number = JStr [], passport_issue_date = JStr [],
              passport_expiry_date = JStr [], driver_license_number = JStr [],
              driver_license_expiry = JStr [], notes' = JStr [] \<rparr>
          \<and> error (st c') =
              (if truthy (prop_of data ''message'') then prop_of data ''message''
               else JStr msg_load_failed)
          \<and> truthy (error (st c')))
       \<and> (await_json out = Inl e
            \<or> (await_json out = Inr data \<and> get_prop data ''success'' = Inl e) \<longrightarrow>
          formData (st c') =
            \<lparr> full_name = JStr [], email = JStr [], phone = JStr [], address = JStr [],
              passport_number = JStr [], passport_issue_date = JStr [],
              passport_expiry_date = JStr [], driver_license_number = JStr [],
              driver_license_expiry = JStr [], notes' = JStr [] \<rparr>
          \<and> error (st c') = JStr msg_load_thrown
          \<and> truthy (error (st c')))
       \<and> \<not> loading (st c') \<and> \<not> load_pending c' \<and> render (st c') \<noteq> LoadingView"
proof -
  have m: "run p (mount p) evs = mount p"
    using assms(1) by (rule pending_only_at_mount)
  have pm: "load_pending (mount p)"
    using assms(1) m by simp
  have s0: "st (mount p) = initial_state p"
    by (simp add: mount_def)
  have c': "st c' = fst (fetchClient_resume (initial_state p) out)" and np: "\<not> load_pending c'"
    using step_load_completed [OF pm, of p out] assms(2) m s0 by simp_all
  have blank: "formData (initial_state p) =
            \<lparr> full_name = JStr [], email = JStr [], phone = JStr [], address = JStr [],
              passport_number = JStr [], passport_issue_date = JStr [],
              passport_expiry_date = JStr [], driver_license_number = JStr [],
              driver_license_expiry = JStr [], notes' = JStr [] \<rparr>"
    by (simp add: initial_state_def blank_form_def)
  have nl: "\<not> loading (st c')"
    unfolding c' by (simp add: fetchClient_resume_def split: sum.splits prod.splits)
  have fail: "formData (st c') = formData (initial_state p)
      \<and> error (st c') = (if truthy (prop_of data ''message'') then prop_of data ''message''
                          else JStr msg_load_failed)
      \<and> truthy (error (st c'))"
    if a: "await_json out = Inr data \<and> get_prop data ''success'' = Inr ok
            \<and> \<not> (truthy ok \<and> truthy (prop_of data ''client''))"
  proof -
    have r: "fetchClient_resume (initial_state p) out =
        ((initial_state p)\<lparr>error := js_or (prop_of data ''message'') (JStr msg_load_failed),
           loading := False\<rparr>, [])"
      using a fetchClient_try_failure [of out data ok "initial_state p"]
      by (simp add: fetchClient_resume_def)
    show ?thesis
      unfolding c' r by (simp add: js_or_def canned_nonempty)
  qed
  have thrown: "formData (st c') = formData (initial_state p)
      \<and> error (st c') = JStr msg_load_thrown \<and> truthy (error (st c'))"
    if a: "await_json out = Inl e
            \<or> (await_json out = Inr data \<and> get_prop data ''success'' = Inl e)"
  proof -
    have r: "fetchClient_resume (initial_state p) out =
        ((initial_state p)\<lparr>error := JStr msg_load_thrown, loading := False\<rparr>,
         [ConsoleError ''Fetch client error:''])"
      using fetchClient_try_thrown [OF a, of "initial_state p"]
      by (simp add: fetchClient_resume_def)
    show ?thesis
      unfolding c' r by (simp add: canned_nonempty)
  qed
  show ?thesis
    using fail thrown nl np by (simp add: blank render_def canned_nonempty)
qed

theorem load_failure_keeps_blank_witness:
  "load_pending (run edit_props (mount edit_props) [InputChanged ''full_name'' ''x''])
   \<and> await_json (FetchResolved \<lparr>status = 200, body_json = Some body_duplicate\<rparr>) = Inr body_duplicate
   \<and> get_prop body_duplicate ''success'' = Inr (JBool False)
   \<and> \<not> (truthy (JBool False) \<and> truthy (prop_of body_duplicate ''client''))
   \<and> formData (st (step edit_props (run edit_props (mount edit_props) [InputChanged ''full_name'' ''x''])
        (LoadCompleted (FetchResolved \<lparr>status = 200, body_json = Some body_duplicate\<rparr>)))) = blank_form
   \<and> error (st (step edit_props (run edit_props (mount edit_props) [InputChanged ''full_name'' ''x''])
        (LoadCompleted (FetchResolved \<lparr>status = 200, body_json = Some body_duplicate\<rparr>))))
       = JStr ''Duplicate passport''
   \<and> await_json (FetchResolved \<lparr>status = 200, body_json = Some body_no_client\<rparr>) = Inr body_no_client
   \<and> get_prop body_no_client ''success'' = Inr (JBool True)
   \<and> \<not> (truthy (JBool True) \<and> truthy (prop_of body_no_client ''client''))
   \<and> error (st (step edit_props (run edit_props (mount edit_props) [InputChanged ''full_name'' ''x''])
        (LoadCompleted (FetchResolved \<lparr>status = 200, body_json = Some body_no_client\<rparr>))))
       = JStr msg_load_failed
   \<and> await_json (FetchResolved \<lparr>status = 200, body_json = None\<rparr>) = Inl JsonSyntaxError
   \<and> formData (st (step edit_props (run edit_props (mount edit_props) [InputChanged ''full_name'' ''x''])
        (LoadCompleted (FetchResolved \<lparr>status = 200, body_json = None\<rparr>)))) = blank_form
   \<and> error (st (step edit_props (run edit_props (mount edit_props) [InputChanged ''full_name'' ''x''])
        (LoadCompleted (FetchResolved \<lparr>status = 200, body_json = None\<rparr>)))) = JStr msg_load_thrown
   \<and> \<not> loading (st (step edit_props (run edit_props (mount edit_props) [InputChanged ''full_name'' ''x''])
        (LoadCompleted (FetchResolved \<lparr>status = 200, body_json = None\<rparr>))))"
proof -
  let ?c = "run edit_props (mount edit_props) [InputChanged ''full_name'' ''x'']"
  let ?dup = "FetchResolved \<lparr>status = 200, body_json = Some body_duplicate\<rparr>"
  let ?noc = "FetchResolved \<lparr>status = 200, body_json = Some body_no_client\<rparr>"
  let ?bad = "FetchResolved \<lparr>status = 200, body_json = None\<rparr>"
  have lp: "load_pending ?c"
    by (simp add: step_def mount_def edit_props_def truthy_id_def render_def initial_state_def)
  have a: "await_json ?dup = Inr body_duplicate" and a': "await_json ?noc = Inr body_no_client"
    by (rule await_json_resolved)+
  have b: "get_prop body_duplicate ''success'' = Inr (JBool False)"
    and b': "get_prop body_no_client ''success'' = Inr (JBool True)"
    by (simp_all add: body_duplicate_def body_no_client_def)
  have m: "prop_of body_duplicate ''message'' = JStr ''Duplicate passport''"
    and m': "prop_of body_no_client ''message'' = JUndefined"
    and k: "prop_of body_no_client ''client'' = JUndefined"
    by (simp_all add: body_duplicate_def body_no_client_def prop_of_def)
  have d: "await_json ?bad = Inl JsonSyntaxError"
    by (simp add: await_json_def)
  show ?thesis
    using load_failure_keeps_blank [OF lp refl, of ?dup body_duplicate "JBool False" FetchFailed]
      load_failure_keeps_blank [OF lp refl, of ?noc body_no_client "JBool True" FetchFailed]
      load_failure_keeps_blank [OF lp refl, of ?bad JNull JNull JsonSyntaxError]
      lp a a' b b' d
    by (simp add: m m' k blank_form_def)
qed

section \<open>The required-field gate\<close>

lemma gate_blocks_iff:
  "gate_blocks (form_inputs f) =
     (full_name f = JStr [] \<or> phone f = JStr [] \<or> passport_number f = JStr [])"
  by (auto simp: gate_blocks_def form_inputs_def value_missing_def)

lemma bodies_filled_step: "bodies_filled c \<Longrightarrow> bodies_filled (step p c ev)"
proof (cases ev)
  case (LoadCompleted out)
  assume "bodies_filled c"
  then show ?thesis
    using fetches_fetchClient_resume [of "st c" out]
    by (auto simp: LoadCompleted step_def bodies_filled_def fetches_append split: prod.splits)
next
  case (InputChanged n v)
  assume "bodies_filled c"
  then show ?thesis
    by (auto simp: InputChanged step_def bodies_filled_def render_def)
next
  case SubmitRequested
  assume "bodies_filled c"
  then show ?thesis
    by (auto simp: SubmitRequested step_def bodies_filled_def render_def gate_blocks_iff
        handleSubmit_start_def submit_request_def fetches_append)
next
  case (SubmitCompleted out)
  assume "bodies_filled c"
  then show ?thesis
    using fetches_handleSubmit_resume [of p "st c" out]
    by (auto simp: SubmitCompleted step_def bodies_filled_def fetches_append split: prod.splits)
next
  case CancelClicked
  assume "bodies_filled c"
  then show ?thesis
    by (auto simp: CancelClicked step_def bodies_filled_def render_def fetches_append)
next
  case TimerElapsed
  assume "bodies_filled c"
  then show ?thesis
    by (auto simp: TimerElapsed step_def bodies_filled_def fetches_append)
qed

lemma bodies_filled_run: "bodies_filled c \<Longrightarrow> bodies_filled (run p c evs)"
  by (induction evs arbitrary: c) (simp_all add: bodies_filled_step)

lemma bodies_filled_mount: "bodies_filled (mount p)"
  by (simp add: bodies_filled_def mount_def fetchClient_request_def)

text \<open>
  C8: with the browser's required-field gate in front of \<open>onSubmit\<close>, a submission
  attempted while \<open>full_name\<close>, \<open>phone\<close> or \<open>passport_number\<close> is the empty string changes
  nothing (no handler runs, no request is issued), and over the whole life of a mounted
  component every request that carries a form body has all three required fields
  non-empty.
\<close>

theorem empty_required_field_blocks_submit:
  "(full_name (formData (st c)) = JStr [] \<or> phone (formData (st c)) = JStr []
      \<or> passport_number (formData (st c)) = JStr [] \<longrightarrow>
      step p c SubmitRequested = c)
   \<and> (\<forall>r \<in> set (fetches (trace (run p (mount p) evs))). \<forall>f. body r = Some f \<longrightarrow>
        full_name f \<noteq> JStr [] \<and> phone f \<noteq> JStr [] \<and> passport_number f \<noteq> JStr [])"
proof -
  have "bodies_filled (run p (mount p) evs)"
    using bodies_filled_mount by (rule bodies_filled_run)
  then show ?thesis
    by (simp add: bodies_filled_def step_def render_def gate_blocks_iff)
qed

theorem empty_required_field_blocks_submit_witness:
  "phone (formData (st (run create_props (mount create_props)
       [InputChanged ''full_name'' ''Ivanov I.I.'']))) = JStr []
   \<and> fetches (trace (run create_props (mount create_props)
       [InputChanged ''full_name'' ''Ivanov I.I.'', SubmitRequested])) = []
   \<and> map body (fetches (trace (run create_props (mount create_props)
       [InputChanged ''full_name'' ''Ivanov I.I.'', SubmitRequested,
        InputChanged ''phone'' ''+70000000000'', InputChanged ''passport_number'' ''1234 567890'',
        SubmitRequested]))) = [Some filled_form]"
proof -
  let ?c = "run create_props (mount create_props) [InputChanged ''full_name'' ''Ivanov I.I.'']"
  have c: "?c = \<lparr> st = (initial_state create_props)
                        \<lparr>formData := blank_form\<lparr>full_name := JStr ''Ivanov I.I.''\<rparr>\<rparr>,
                  load_pending = False, submit_pending = False, timers = 0, trace = [] \<rparr>"
    by (simp add: step_def mount_def create_props_def render_def initial_state_def
        handleChange_def set_field_def)
  have ph: "phone (formData (st ?c)) = JStr []"
    unfolding c by (simp add: initial_state_def blank_form_def)
  have blocked: "step create_props ?c SubmitRequested = ?c"
    using empty_required_field_blocks_submit [of ?c create_props "[]"] ph by blast
  have r2: "run create_props (mount create_props)
       [InputChanged ''full_name'' ''Ivanov I.I.'', SubmitRequested] = ?c"
    using blocked by simp
  have r3: "run create_props (mount create_props)
       [InputChanged ''full_name'' ''Ivanov I.I.'', SubmitRequested,
        InputChanged ''phone'' ''+70000000000'', InputChanged ''passport_number'' ''1234 567890'',
        SubmitRequested]
      = run create_props ?c [InputChanged ''phone'' ''+70000000000'',
          InputChanged ''passport_number'' ''1234 567890'', SubmitRequested]"
    using blocked by simp
  have t: "map body (fetches (trace (run create_props ?c [InputChanged ''phone'' ''+70000000000'',
          InputChanged ''passport_number'' ''1234 567890'', SubmitRequested]))) = [Some filled_form]"
    unfolding c
    by (simp add: step_def create_props_def render_def initial_state_def handleChange_def
        set_field_def gate_blocks_iff handleSubmit_start_def submit_request_def
        filled_form_def blank_form_def)
  have tr: "fetches (trace ?c) = []"
    unfolding c by simp
  show ?thesis
    unfolding r2 r3 by (intro conjI ph tr t)
qed

section \<open>Edit mode without an identifier\<close>

lemma mount_loading_forever:
  assumes "isEditMode p" and "\<not> truthy_id (clientId p)"
  shows "step p (mount p) ev = mount p"
  using assms
  by (cases ev) (simp_all add: step_def mount_def render_def initial_state_def)

text \<open>
  C10: mounted with \<open>isEditMode\<close> true and \<open>clientId\<close> absent or \<open>0\<close>, the component issues
  no request, has none in flight, and after any sequence of events \<open>loading\<close> is still
  true and only the loading indicator is rendered.
\<close>

theorem edit_without_id_never_leaves_loading:
  assumes "isEditMode p" and "\<not> truthy_id (clientId p)"
  shows "loading (st (run p (mount p) evs))
       \<and> render (st (run p (mount p) evs)) = LoadingView
       \<and> fetches (trace (run p (mount p) evs)) = []
       \<and> \<not> load_pending (run p (mount p) evs)"
proof -
  have "run p (mount p) evs = mount p"
    using mount_loading_forever [OF assms] by (rule run_fixed)
  then show ?thesis
    using assms by (simp add: mount_def render_def initial_state_def)
qed

theorem edit_without_id_never_leaves_loading_witness:
  "isEditMode edit_without_id_props \<and> \<not> truthy_id (clientId edit_without_id_props)
   \<and> isEditMode edit_zero_id_props \<and> \<not> truthy_id (clientId edit_zero_id_props)
   \<and> render (st (run edit_without_id_props (mount edit_without_id_props)
        [LoadCompleted FetchRejected, InputChanged ''phone'' ''1'', SubmitRequested,
         CancelClicked, TimerElapsed])) = LoadingView
   \<and> fetches (trace (run edit_zero_id_props (mount edit_zero_id_props)
        [LoadCompleted FetchRejected, SubmitRequested])) = []"
proof -
  have a: "isEditMode edit_without_id_props" and b: "\<not> truthy_id (clientId edit_without_id_props)"
    and c: "isEditMode edit_zero_id_props" and d: "\<not> truthy_id (clientId edit_zero_id_props)"
    by (simp_all add: edit_without_id_props_def edit_zero_id_props_def truthy_id_def)
  show ?thesis
    using edit_without_id_never_leaves_loading [OF a b]
      edit_without_id_never_leaves_loading [OF c d] a b c d
    by blast
qed


end
